theory Spec2Isabelle
  imports Main
begin

section \<open>Strings, JSON values and the Express response\<close>

text \<open>
  A JavaScript string is a sequence of UTF-16 code units; a regular expression without
  the \<open>u\<close> flag matches code units. A string is therefore a list of code units, and an
  ASCII literal of the source is written \<open>lit ''...''\<close>.
\<close>

type_synonym jsstring = "nat list"

definition lit :: "string \<Rightarrow> jsstring" where
  "lit s = map of_char s"

text \<open>The truthiness of a \<^verbatim>\<open>string | undefined\<close>: \<^verbatim>\<open>undefined\<close> and \<^verbatim>\<open>''\<close> are falsy.\<close>

fun truthy :: "jsstring option \<Rightarrow> bool" where
  "truthy None = False"
| "truthy (Some s) = (s \<noteq> [])"

datatype json = JBool bool | JNum int | JStr jsstring | JObj "(string \<times> json) list"

record cookie_options =
  httpOnly :: bool
  secure :: bool
  sameSite :: jsstring
  path :: jsstring

text \<open>
  What a handler has done to \<^verbatim>\<open>res\<close>: the status written by \<^verbatim>\<open>res.status(n)\<close>
  (\<open>None\<close> while it has not been called), the cookies set and cleared, and the body
  sent by \<^verbatim>\<open>res.json\<close>.
\<close>

record response =
  status :: "nat option"
  set_cookies :: "(jsstring \<times> jsstring \<times> cookie_options) list"
  cleared_cookies :: "(jsstring \<times> cookie_options) list"
  json_body :: "json option"

definition res0 :: response where
  "res0 = \<lparr>status = None, set_cookies = [], cleared_cookies = [], json_body = None\<rparr>"

definition res_status :: "nat \<Rightarrow> response \<Rightarrow> response" where
  "res_status n r = r\<lparr>status := Some n\<rparr>"

definition res_json :: "json \<Rightarrow> response \<Rightarrow> response" where
  "res_json j r = r\<lparr>json_body := Some j\<rparr>"

definition res_cookie :: "jsstring \<Rightarrow> jsstring \<Rightarrow> cookie_options \<Rightarrow> response \<Rightarrow> response" where
  "res_cookie name val opts r = r\<lparr>set_cookies := set_cookies r @ [(name, val, opts)]\<rparr>"

definition res_clearCookie :: "jsstring \<Rightarrow> cookie_options \<Rightarrow> response \<Rightarrow> response" where
  "res_clearCookie name opts r = r\<lparr>cleared_cookies := cleared_cookies r @ [(name, opts)]\<rparr>"

text \<open>Express sends status 200 when the handler never called \<^verbatim>\<open>res.status\<close>.\<close>

definition statusCode :: "response \<Rightarrow> nat" where
  "statusCode r = (case status r of None \<Rightarrow> 200 | Some n \<Rightarrow> n)"

section \<open>The auth routes (routes/auth/index.ts)\<close>

record request =
  headers :: "string \<rightharpoonup> jsstring"
  cookies :: "(jsstring \<rightharpoonup> jsstring) option"
  body_apiKey :: "jsstring option"

text \<open>
  The routes import seven helpers from \<^verbatim>\<open>lib/auth.js\<close>. The routes are modelled over
  any implementation of them: \<open>'s\<close> is the state the helpers keep (the session store),
  threaded through every call that can touch it.
\<close>

record 's auth_lib =
  validateApiKey :: "jsstring \<Rightarrow> bool"
  createSession :: "'s \<Rightarrow> jsstring \<times> 's"
  invalidateSession :: "jsstring \<Rightarrow> 's \<Rightarrow> 's"
  getSessionCookieOptions :: cookie_options
  getSessionCookieName :: jsstring
  isRequestAuthenticated :: "request \<Rightarrow> 's \<Rightarrow> bool \<times> 's"
  createWsConnectionToken :: "'s \<Rightarrow> jsstring \<times> 's"

text \<open>The helper calls a handler makes, in order.\<close>

datatype call =
    ValidateApiKey jsstring
  | CreateSession
  | InvalidateSession jsstring
  | GetSessionCookieOptions
  | GetSessionCookieName
  | IsRequestAuthenticated
  | CreateWsConnectionToken

record 's outcome =
  res :: response
  state :: 's
  calls :: "call list"

text \<open>\<^verbatim>\<open>router.get('/status', ...)\<close>\<close>

definition get_status :: "'s auth_lib \<Rightarrow> request \<Rightarrow> 's \<Rightarrow> 's outcome" where
  "get_status lib req st =
     (let (authenticated, st') = isRequestAuthenticated lib req st
      in \<lparr>res = res_json (JObj [(''success'', JBool True),
                                 (''authenticated'', JBool authenticated),
                                 (''required'', JBool True)]) res0,
          state = st',
          calls = [IsRequestAuthenticated]\<rparr>)"

text \<open>\<^verbatim>\<open>router.post('/login', ...)\<close>\<close>

definition login_missing_key :: response where
  "login_missing_key =
     res_json (JObj [(''success'', JBool False),
                     (''error'', JStr (lit ''API key is required.''))])
       (res_status 400 res0)"

definition login_invalid_key :: response where
  "login_invalid_key =
     res_json (JObj [(''success'', JBool False),
                     (''error'', JStr (lit ''Invalid API key.''))])
       (res_status 401 res0)"

definition post_login :: "'s auth_lib \<Rightarrow> request \<Rightarrow> 's \<Rightarrow> 's outcome" where
  "post_login lib req st =
     (case body_apiKey req of
        None \<Rightarrow> \<lparr>res = login_missing_key, state = st, calls = []\<rparr>
      | Some apiKey \<Rightarrow>
          if \<not> truthy (Some apiKey) then
            \<lparr>res = login_missing_key, state = st, calls = []\<rparr>
          else if \<not> validateApiKey lib apiKey then
            \<lparr>res = login_invalid_key, state = st, calls = [ValidateApiKey apiKey]\<rparr>
          else
            (let (sessionToken, st') = createSession lib st;
                 cookieOptions = getSessionCookieOptions lib;
                 cookieName = getSessionCookieName lib
             in \<lparr>res = res_json (JObj [(''success'', JBool True),
                                        (''message'', JStr (lit ''Logged in successfully.'')),
                                        (''token'', JStr sessionToken)])
                         (res_cookie cookieName sessionToken cookieOptions res0),
                 state = st',
                 calls = [ValidateApiKey apiKey, CreateSession, GetSessionCookieOptions,
                          GetSessionCookieName]\<rparr>))"

text \<open>\<^verbatim>\<open>router.get('/token', ...)\<close>\<close>

definition get_token :: "'s auth_lib \<Rightarrow> request \<Rightarrow> 's \<Rightarrow> 's outcome" where
  "get_token lib req st =
     (let (authenticated, st') = isRequestAuthenticated lib req st in
      if \<not> authenticated then
        \<lparr>res = res_json (JObj [(''success'', JBool False),
                                (''error'', JStr (lit ''Authentication required.''))])
                 (res_status 401 res0),
         state = st', calls = [IsRequestAuthenticated]\<rparr>
      else
        (let (wsToken, st'') = createWsConnectionToken lib st'
         in \<lparr>res = res_json (JObj [(''success'', JBool True),
                                    (''token'', JStr wsToken),
                                    (''expiresIn'', JNum 300)]) res0,
             state = st'',
             calls = [IsRequestAuthenticated, CreateWsConnectionToken]\<rparr>))"

text \<open>
  \<^verbatim>\<open>router.post('/logout', ...)\<close>. \<open>node_env\<close> is \<^verbatim>\<open>process.env.NODE_ENV\<close>;
  \<^verbatim>\<open>req.cookies?.[cookieName]\<close> is \<^verbatim>\<open>undefined\<close> when \<^verbatim>\<open>req.cookies\<close> is.
\<close>

definition post_logout :: "'s auth_lib \<Rightarrow> jsstring option \<Rightarrow> request \<Rightarrow> 's \<Rightarrow> 's outcome" where
  "post_logout lib node_env req st =
     (let cookieName = getSessionCookieName lib;
          sessionToken = (case cookies req of None \<Rightarrow> None | Some cs \<Rightarrow> cs cookieName);
          (st', invalidated) =
            (case sessionToken of
               None \<Rightarrow> (st, [])
             | Some t \<Rightarrow>
                 if truthy (Some t) then (invalidateSession lib t st, [InvalidateSession t])
                 else (st, []))
      in \<lparr>res = res_json (JObj [(''success'', JBool True),
                                 (''message'', JStr (lit ''Logged out successfully.''))])
                  (res_clearCookie cookieName
                     \<lparr>httpOnly = True,
                      secure = (node_env = Some (lit ''production'')),
                      sameSite = lit ''strict'',
                      path = lit ''/''\<rparr> res0),
          state = st',
          calls = GetSessionCookieName # invalidated\<rparr>)"

section \<open>The helpers of lib/auth.ts\<close>

text \<open>
  \<^verbatim>\<open>lib/auth.ts\<close> is not among the sources; only its tests and its callers are. Its
  functions are modelled from the specification, under the specification's names, and
  packaged as an \<open>auth_lib\<close> under the names the routes import.
\<close>

text \<open>
  Modelled from the spec: the data model of \<^verbatim>\<open>lib/auth.ts\<close> (sessions, connection
  tokens, the store that owns both, the configuration).
\<close>

record session =
  createdAt :: nat
  expiresAt :: nat

record connection_token =
  ct_expiresAt :: nat

text \<open>
  The store owns both namespaces. \<open>clock\<close> is the current time in seconds and
  \<open>draws\<close> counts the values taken from the randomness source so far.
\<close>

record store =
  sessions :: "jsstring \<rightharpoonup> session"
  connTokens :: "jsstring \<rightharpoonup> connection_token"
  clock :: nat
  draws :: nat

text \<open>
  The configuration, fixed at process start: the secret (\<open>None\<close> when none is
  configured), the session lifetime, the randomness source (its \<open>n\<close>-th value), the
  session cookie's name and attributes, and the name of the session-token header.
\<close>

record config =
  secret :: "jsstring option"
  sessionTTL :: nat
  entropy :: "nat \<Rightarrow> jsstring"
  cookieName :: jsstring
  cookieOptions :: cookie_options
  sessionTokenHeader :: string

text \<open>
  Modelled from the spec: the comparison of \<^verbatim>\<open>KeyValidator\<close>, which is in
  \<^verbatim>\<open>lib/auth.ts\<close>. It is constant-time: it visits every position of two strings of
  one length and accumulates the differences, never stopping at the first.
\<close>

definition constant_time_eq :: "jsstring \<Rightarrow> jsstring \<Rightarrow> bool" where
  "constant_time_eq a b = (\<not> foldl (\<lambda>diff (x, y). diff \<or> x \<noteq> y) False (zip a b))"

text \<open>
  Modelled from the spec: \<^verbatim>\<open>KeyValidator.validate\<close> (\<^verbatim>\<open>validateApiKey\<close> of
  \<^verbatim>\<open>lib/auth.ts\<close>). No configured secret rejects every key; a key of another length
  is rejected only after a full comparison of the secret against a value of its own size.
\<close>

definition KeyValidator_validate :: "jsstring option \<Rightarrow> jsstring \<Rightarrow> bool" where
  "KeyValidator_validate configured presented =
     (case configured of
        None \<Rightarrow> False
      | Some s \<Rightarrow>
          if length presented \<noteq> length s
          then (let full_comparison = constant_time_eq s s in False)
          else constant_time_eq presented s)"

text \<open>
  Modelled from the spec: \<^verbatim>\<open>SessionStore.create\<close> (\<^verbatim>\<open>createSession\<close> of
  \<^verbatim>\<open>lib/auth.ts\<close>): a new token from the randomness source, a session from now to
  now + sessionTTL.
\<close>

definition SessionStore_create :: "config \<Rightarrow> store \<Rightarrow> jsstring \<times> store" where
  "SessionStore_create cfg st =
     (let token = entropy cfg (draws st)
      in (token,
          st\<lparr>sessions := (sessions st)(token \<mapsto>
                 \<lparr>createdAt = clock st, expiresAt = clock st + sessionTTL cfg\<rparr>),
             draws := Suc (draws st)\<rparr>))"

text \<open>
  Modelled from the spec: \<^verbatim>\<open>SessionStore.get\<close> of \<^verbatim>\<open>lib/auth.ts\<close>: the session iff
  present and \<open>now < expiresAt\<close>; an expired entry is removed and reported absent.
\<close>

definition SessionStore_get :: "jsstring \<Rightarrow> store \<Rightarrow> session option \<times> store" where
  "SessionStore_get token st =
     (case sessions st token of
        None \<Rightarrow> (None, st)
      | Some s \<Rightarrow>
          if clock st < expiresAt s then (Some s, st)
          else (None, st\<lparr>sessions := (sessions st)(token := None)\<rparr>))"

text \<open>
  Modelled from the spec: \<^verbatim>\<open>SessionStore.invalidate\<close> (\<^verbatim>\<open>invalidateSession\<close> of
  \<^verbatim>\<open>lib/auth.ts\<close>): removes the session if present.
\<close>

definition SessionStore_invalidate :: "jsstring \<Rightarrow> store \<Rightarrow> store" where
  "SessionStore_invalidate token st = st\<lparr>sessions := (sessions st)(token := None)\<rparr>"

text \<open>
  The lifetime of a connection token in seconds: the \<^verbatim>\<open>expiresIn: 300\<close> of the token
  route, five minutes.
\<close>

definition connectionTokenTTL :: nat where
  "connectionTokenTTL = 5 * 60"

text \<open>
  Modelled from the spec: the issuing half of \<^verbatim>\<open>ConnectionTokenIssuer\<close>
  (\<^verbatim>\<open>createWsConnectionToken\<close> of \<^verbatim>\<open>lib/auth.ts\<close>): a fresh token from the randomness
  source, recorded in the namespace of connection tokens with \<open>expiresAt = now + 300\<close>.
  The route calls it with no argument after its own authentication check, so the function
  is given no session: the check is the route's, and no session is named in the record.
\<close>

definition ConnectionTokenIssuer_issue :: "config \<Rightarrow> store \<Rightarrow> jsstring \<times> store" where
  "ConnectionTokenIssuer_issue cfg st =
     (let token = entropy cfg (draws st)
      in (token,
          st\<lparr>connTokens := (connTokens st)(token \<mapsto>
                 \<lparr>ct_expiresAt = clock st + connectionTokenTTL\<rparr>),
             draws := Suc (draws st)\<rparr>))"

text \<open>
  Modelled from the spec: \<^verbatim>\<open>ConnectionTokenIssuer.redeem\<close> of \<^verbatim>\<open>lib/auth.ts\<close>: true
  iff the token exists and \<open>now < expiresAt\<close>.
\<close>

definition ConnectionTokenIssuer_redeem :: "jsstring \<Rightarrow> store \<Rightarrow> bool" where
  "ConnectionTokenIssuer_redeem token st =
     (case connTokens st token of None \<Rightarrow> False | Some t \<Rightarrow> clock st < ct_expiresAt t)"

text \<open>The first result of a list of attempts, in order.\<close>

fun first_match :: "('a \<Rightarrow> 'b option) \<Rightarrow> 'a list \<Rightarrow> 'b option" where
  "first_match f [] = None"
| "first_match f (x # xs) = (case f x of Some y \<Rightarrow> Some y | None \<Rightarrow> first_match f xs)"

datatype credential = ApiKey jsstring | SessionToken jsstring

text \<open>
  Modelled from the spec: the credential channels of \<^verbatim>\<open>AuthGate\<close> in
  \<^verbatim>\<open>lib/auth.ts\<close>, an ordered list of extractors: the header carrying the API key
  (\<^verbatim>\<open>x-api-key\<close> in the tests), the session cookie, the session-token header. The gate
  stops at the first credential that is present, whether or not it is valid.
\<close>

definition extractors :: "config \<Rightarrow> (request \<Rightarrow> credential option) list" where
  "extractors cfg =
     [\<lambda>req. map_option ApiKey (headers req ''x-api-key''),
      \<lambda>req. map_option SessionToken
               (case cookies req of None \<Rightarrow> None | Some cs \<Rightarrow> cs (cookieName cfg)),
      \<lambda>req. map_option SessionToken (headers req (sessionTokenHeader cfg))]"

definition presented :: "config \<Rightarrow> request \<Rightarrow> credential option" where
  "presented cfg req = first_match (\<lambda>extract. extract req) (extractors cfg)"

datatype reason = MissingCredentials | InvalidApiKey | InvalidOrExpiredSession

datatype decision = Authenticated | Unauthenticated reason

text \<open>
  Modelled from the spec: \<^verbatim>\<open>AuthGate.authenticate\<close> of \<^verbatim>\<open>lib/auth.ts\<close>.
\<close>

definition AuthGate_authenticate :: "config \<Rightarrow> request \<Rightarrow> store \<Rightarrow> decision \<times> store" where
  "AuthGate_authenticate cfg req st =
     (case presented cfg req of
        None \<Rightarrow> (Unauthenticated MissingCredentials, st)
      | Some (ApiKey key) \<Rightarrow>
          if KeyValidator_validate (secret cfg) key then (Authenticated, st)
          else (Unauthenticated InvalidApiKey, st)
      | Some (SessionToken token) \<Rightarrow>
          (case SessionStore_get token st of
             (None, st') \<Rightarrow> (Unauthenticated InvalidOrExpiredSession, st')
           | (Some s, st') \<Rightarrow> (Authenticated, st')))"

text \<open>
  Modelled from the spec: the read-only status check of \<^verbatim>\<open>lib/auth.ts\<close>: the same
  decision, reported as a boolean.
\<close>

definition AuthGate_isRequestAuthenticated :: "config \<Rightarrow> request \<Rightarrow> store \<Rightarrow> bool \<times> store" where
  "AuthGate_isRequestAuthenticated cfg req st =
     (case AuthGate_authenticate cfg req st of (d, st') \<Rightarrow> (d = Authenticated, st'))"

text \<open>The helpers as the routes import them.\<close>

definition lib_auth :: "config \<Rightarrow> store auth_lib" where
  "lib_auth cfg =
     \<lparr>validateApiKey = KeyValidator_validate (secret cfg),
      createSession = SessionStore_create cfg,
      invalidateSession = SessionStore_invalidate,
      getSessionCookieOptions = cookieOptions cfg,
      getSessionCookieName = cookieName cfg,
      isRequestAuthenticated = AuthGate_isRequestAuthenticated cfg,
      createWsConnectionToken = ConnectionTokenIssuer_issue cfg\<rparr>"

text \<open>
  Every token in the store was drawn from the randomness source, at a draw already made.
\<close>

definition drawn :: "config \<Rightarrow> store \<Rightarrow> bool" where
  "drawn cfg st =
     (\<forall>t \<in> dom (sessions st) \<union> dom (connTokens st). \<exists>i < draws st. t = entropy cfg i)"

section \<open>The validate-feature route (routes/features/routes/validate-feature.ts)\<close>

subsection \<open>The three regular expressions\<close>





















subsection \<open>The handler\<close>










section \<open>Reading a JSON body\<close>

definition field :: "string \<Rightarrow> json \<Rightarrow> json option" where
  "field name j = (case j of JObj members \<Rightarrow> map_of members name | _ \<Rightarrow> None)"

fun at_path :: "string list \<Rightarrow> json \<Rightarrow> json option" where
  "at_path [] j = Some j"
| "at_path (name # names) j = (case field name j of None \<Rightarrow> None | Some j' \<Rightarrow> at_path names j')"

definition body_at :: "string list \<Rightarrow> response \<Rightarrow> json option" where
  "body_at names r = (case json_body r of None \<Rightarrow> None | Some j \<Rightarrow> at_path names j)"

section \<open>Validity of a presented credential\<close>

definition session_cookie :: "config \<Rightarrow> request \<Rightarrow> jsstring option" where
  "session_cookie cfg req = (case cookies req of None \<Rightarrow> None | Some cs \<Rightarrow> cs (cookieName cfg))"

definition credential_valid :: "config \<Rightarrow> store \<Rightarrow> credential \<Rightarrow> bool" where
  "credential_valid cfg st c =
     (case c of
        ApiKey key \<Rightarrow> KeyValidator_validate (secret cfg) key
      | SessionToken token \<Rightarrow> fst (SessionStore_get token st) \<noteq> None)"

section \<open>A configuration, requests and services to run the definitions on\<close>

definition example_config :: config where
  "example_config =
     \<lparr>secret = Some (lit ''test-secret-key''),
      sessionTTL = 3600,
      entropy = (\<lambda>n. replicate (Suc n) 0x74),
      cookieName = lit ''session'',
      cookieOptions = \<lparr>httpOnly = True, secure = False, sameSite = lit ''strict'', path = lit ''/''\<rparr>,
      sessionTokenHeader = ''x-session-token''\<rparr>"

definition empty_store :: store where
  "empty_store = \<lparr>sessions = Map.empty, connTokens = Map.empty, clock = 0, draws = 0\<rparr>"

definition bare_request :: request where
  "bare_request = \<lparr>headers = Map.empty, cookies = None, body_apiKey = None\<rparr>"

definition keyed_request :: request where
  "keyed_request = bare_request\<lparr>headers := [''x-api-key'' \<mapsto> lit ''test-secret-key'']\<rparr>"

definition cookie_request :: request where
  "cookie_request = bare_request\<lparr>cookies := Some [lit ''session'' \<mapsto> [0x74]]\<rparr>"

definition logged_in_store :: store where
  "logged_in_store = snd (SessionStore_create example_config empty_store)"



section \<open>The key validator\<close>


lemma foldl_diff:
  "foldl (\<lambda>diff (x, y). diff \<or> x \<noteq> y) acc ps \<longleftrightarrow> acc \<or> (\<exists>(x, y) \<in> set ps. x \<noteq> y)"
  by (induction ps arbitrary: acc) auto

lemma constant_time_eq_iff:
  "length a = length b \<Longrightarrow> constant_time_eq a b \<longleftrightarrow> a = b"
  by (auto simp: constant_time_eq_def foldl_diff list_eq_iff_zip_eq)

lemma KeyValidator_validate_iff:
  "KeyValidator_validate configured s \<longleftrightarrow> configured = Some s"
  by (auto simp: KeyValidator_validate_def constant_time_eq_iff split: option.splits)

text \<open>
  C1. \<^verbatim>\<open>validateApiKey(s)\<close> is true if and only if a secret is configured and \<open>s\<close> is
  that secret. So with no secret configured every key is rejected, and with a secret
  configured the secret is accepted and every other string is rejected.
\<close>

theorem validateApiKey_accepts_only_the_secret:
  "(validateApiKey (lib_auth cfg) s \<longleftrightarrow> (\<exists>k. secret cfg = Some k \<and> s = k))
   \<and> (secret cfg = None \<longrightarrow> \<not> validateApiKey (lib_auth cfg) s)
   \<and> (\<forall>k. secret cfg = Some k \<longrightarrow>
          validateApiKey (lib_auth cfg) k \<and> (s \<noteq> k \<longrightarrow> \<not> validateApiKey (lib_auth cfg) s))"
  by (auto simp: lib_auth_def KeyValidator_validate_iff)

theorem validateApiKey_accepts_only_the_secret_witness:
  "secret example_config = Some (lit ''test-secret-key'')
   \<and> validateApiKey (lib_auth example_config) (lit ''test-secret-key'')
   \<and> lit ''wrong-key'' \<noteq> lit ''test-secret-key''
   \<and> \<not> validateApiKey (lib_auth example_config) (lit ''wrong-key'')"
proof -
  have configured: "secret example_config = Some (lit ''test-secret-key'')"
    by (simp add: example_config_def)
  have differs: "lit ''wrong-key'' \<noteq> lit ''test-secret-key''"
    by (simp add: lit_def)
  from validateApiKey_accepts_only_the_secret [of example_config "lit ''wrong-key''"]
    configured differs
  show ?thesis by blast
qed

section \<open>The auth routes\<close>

lemmas res_defs = res0_def res_status_def res_json_def res_cookie_def res_clearCookie_def
  statusCode_def

text \<open>
  C7. \<^verbatim>\<open>GET /api/auth/status\<close> answers every request with status 200 and the body
  \<^verbatim>\<open>{ success: true, authenticated: b, required: true }\<close>, where \<open>b\<close> is what
  \<^verbatim>\<open>isRequestAuthenticated\<close> reports for the request; it never writes another status.
\<close>

theorem status_reports_and_never_rejects:
  "statusCode (res (get_status lib req st)) = 200
   \<and> status (res (get_status lib req st)) = None
   \<and> json_body (res (get_status lib req st)) =
       Some (JObj [(''success'', JBool True),
                   (''authenticated'', JBool (fst (isRequestAuthenticated lib req st))),
                   (''required'', JBool True)])"
  by (simp add: get_status_def res_defs split: prod.splits)

theorem status_reports_and_never_rejects_witness:
  "statusCode (res (get_status (lib_auth example_config) bare_request empty_store)) = 200
   \<and> json_body (res (get_status (lib_auth example_config) bare_request empty_store)) =
       Some (JObj [(''success'', JBool True), (''authenticated'', JBool False),
                   (''required'', JBool True)])"
proof -
  have absent: "\<not> fst (isRequestAuthenticated (lib_auth example_config) bare_request empty_store)"
    by (simp add: lib_auth_def AuthGate_isRequestAuthenticated_def AuthGate_authenticate_def
        presented_def extractors_def bare_request_def)
  from status_reports_and_never_rejects [of "lib_auth example_config" bare_request empty_store]
    absent
  show ?thesis by simp
qed

text \<open>
  C9. When the \<^verbatim>\<open>apiKey\<close> of a login body is absent or the empty string, the answer
  is 400 with \<^verbatim>\<open>{ success: false, error: "API key is required." }\<close>, and
  \<^verbatim>\<open>validateApiKey\<close> is not called (nor is any other helper; the store is unchanged).
\<close>

theorem login_without_key_is_400:
  assumes "body_apiKey req = None \<or> body_apiKey req = Some []"
  shows "statusCode (res (post_login lib req st)) = 400
         \<and> json_body (res (post_login lib req st)) =
             Some (JObj [(''success'', JBool False),
                         (''error'', JStr (lit ''API key is required.''))])
         \<and> (\<forall>key. ValidateApiKey key \<notin> set (calls (post_login lib req st)))
         \<and> calls (post_login lib req st) = []
         \<and> state (post_login lib req st) = st"
  using assms by (auto simp: post_login_def login_missing_key_def res_defs)

theorem login_without_key_is_400_witness:
  "body_apiKey (bare_request\<lparr>body_apiKey := Some []\<rparr>) = Some []
   \<and> statusCode (res (post_login (lib_auth example_config)
                         (bare_request\<lparr>body_apiKey := Some []\<rparr>) empty_store)) = 400
   \<and> calls (post_login (lib_auth example_config)
               (bare_request\<lparr>body_apiKey := Some []\<rparr>) empty_store) = []"
proof -
  have empty_key: "body_apiKey (bare_request\<lparr>body_apiKey := Some []\<rparr>) = None
                   \<or> body_apiKey (bare_request\<lparr>body_apiKey := Some []\<rparr>) = Some []"
    by simp
  from login_without_key_is_400 [OF empty_key, of "lib_auth example_config" empty_store]
  show ?thesis by simp
qed

text \<open>
  C3. A login whose body carries an API key (a non-empty string: the empty one is the
  missing key of C9): if \<^verbatim>\<open>validateApiKey\<close> rejects it, the answer is 401 with
  \<^verbatim>\<open>{ success: false, error: "Invalid API key." }\<close>, no session is created and no cookie
  is set; if it accepts, one session is created, the session cookie is set to its token
  with the configured name and options, and the answer is 200 with
  \<^verbatim>\<open>{ success: true, message: "Logged in successfully.", token }\<close>, the token of the
  cookie.
\<close>

theorem login_with_key:
  assumes "body_apiKey req = Some key" and "key \<noteq> []"
  shows "(\<not> validateApiKey lib key \<longrightarrow>
            statusCode (res (post_login lib req st)) = 401
            \<and> json_body (res (post_login lib req st)) =
                Some (JObj [(''success'', JBool False),
                            (''error'', JStr (lit ''Invalid API key.''))])
            \<and> state (post_login lib req st) = st
            \<and> CreateSession \<notin> set (calls (post_login lib req st))
            \<and> set_cookies (res (post_login lib req st)) = [])
         \<and> (validateApiKey lib key \<longrightarrow>
            state (post_login lib req st) = snd (createSession lib st)
            \<and> count_list (calls (post_login lib req st)) CreateSession = 1
            \<and> set_cookies (res (post_login lib req st)) =
                [(getSessionCookieName lib, fst (createSession lib st),
                  getSessionCookieOptions lib)]
            \<and> statusCode (res (post_login lib req st)) = 200
            \<and> json_body (res (post_login lib req st)) =
                Some (JObj [(''success'', JBool True),
                            (''message'', JStr (lit ''Logged in successfully.'')),
                            (''token'', JStr (fst (createSession lib st)))]))"
  using assms
  by (simp add: post_login_def login_invalid_key_def res_defs split: prod.splits)

theorem login_with_key_witness:
  "body_apiKey (bare_request\<lparr>body_apiKey := Some (lit ''test-secret-key'')\<rparr>)
     = Some (lit ''test-secret-key'')
   \<and> lit ''test-secret-key'' \<noteq> []
   \<and> validateApiKey (lib_auth example_config) (lit ''test-secret-key'')
   \<and> statusCode (res (post_login (lib_auth example_config)
         (bare_request\<lparr>body_apiKey := Some (lit ''test-secret-key'')\<rparr>) empty_store)) = 200
   \<and> set_cookies (res (post_login (lib_auth example_config)
         (bare_request\<lparr>body_apiKey := Some (lit ''test-secret-key'')\<rparr>) empty_store))
       = [(lit ''session'', [0x74], cookieOptions example_config)]"
proof -
  have carried: "body_apiKey (bare_request\<lparr>body_apiKey := Some (lit ''test-secret-key'')\<rparr>)
                   = Some (lit ''test-secret-key'')"
    by simp
  have nonempty: "lit ''test-secret-key'' \<noteq> []"
    by (simp add: lit_def)
  have valid: "validateApiKey (lib_auth example_config) (lit ''test-secret-key'')"
    by (simp add: lib_auth_def example_config_def KeyValidator_validate_iff)
  have created: "fst (createSession (lib_auth example_config) empty_store) = [0x74]"
    by (simp add: lib_auth_def example_config_def SessionStore_create_def empty_store_def Let_def)
  have named: "getSessionCookieName (lib_auth example_config) = lit ''session''"
    "getSessionCookieOptions (lib_auth example_config) = cookieOptions example_config"
    by (simp_all add: lib_auth_def example_config_def)
  from login_with_key [OF carried nonempty, of "lib_auth example_config" empty_store]
    carried nonempty valid created named
  show ?thesis by simp
qed

text \<open>
  C6. \<^verbatim>\<open>GET /api/auth/token\<close>: a request that is not authenticated gets 401 with
  \<^verbatim>\<open>{ success: false, error: "Authentication required." }\<close>; an authenticated one gets
  200 with \<^verbatim>\<open>{ success: true, token, expiresIn: 300 }\<close>, the token being the one
  \<^verbatim>\<open>createWsConnectionToken\<close> returned, and 300 the five minutes of the connection
  token's lifetime in seconds.
\<close>

theorem token_route_responses:
  "(\<not> fst (isRequestAuthenticated lib req st) \<longrightarrow>
      statusCode (res (get_token lib req st)) = 401
      \<and> json_body (res (get_token lib req st)) =
          Some (JObj [(''success'', JBool False),
                      (''error'', JStr (lit ''Authentication required.''))]))
   \<and> (fst (isRequestAuthenticated lib req st) \<longrightarrow>
      statusCode (res (get_token lib req st)) = 200
      \<and> json_body (res (get_token lib req st)) =
          Some (JObj [(''success'', JBool True),
                      (''token'', JStr (fst (createWsConnectionToken lib
                                               (snd (isRequestAuthenticated lib req st))))),
                      (''expiresIn'', JNum 300)]))
   \<and> int connectionTokenTTL = 300 \<and> connectionTokenTTL = 5 * 60"
  by (simp add: get_token_def res_defs connectionTokenTTL_def split: prod.splits)

theorem token_route_responses_witness:
  "\<not> fst (isRequestAuthenticated (lib_auth example_config) bare_request empty_store)
   \<and> statusCode (res (get_token (lib_auth example_config) bare_request empty_store)) = 401
   \<and> fst (isRequestAuthenticated (lib_auth example_config)
            (bare_request\<lparr>headers := [''x-api-key'' \<mapsto> lit ''test-secret-key'']\<rparr>) empty_store)
   \<and> json_body (res (get_token (lib_auth example_config)
         (bare_request\<lparr>headers := [''x-api-key'' \<mapsto> lit ''test-secret-key'']\<rparr>) empty_store))
       = Some (JObj [(''success'', JBool True), (''token'', JStr [0x74]),
                     (''expiresIn'', JNum 300)])"
proof -
  have absent: "\<not> fst (isRequestAuthenticated (lib_auth example_config) bare_request empty_store)"
    by (simp add: lib_auth_def AuthGate_isRequestAuthenticated_def AuthGate_authenticate_def
        presented_def extractors_def bare_request_def)
  have keyed: "isRequestAuthenticated (lib_auth example_config)
                 (bare_request\<lparr>headers := [''x-api-key'' \<mapsto> lit ''test-secret-key'']\<rparr>) empty_store
               = (True, empty_store)"
    by (simp add: lib_auth_def AuthGate_isRequestAuthenticated_def AuthGate_authenticate_def
        presented_def extractors_def bare_request_def KeyValidator_validate_iff
        example_config_def)
  have issued: "fst (createWsConnectionToken (lib_auth example_config) empty_store) = [0x74]"
    by (simp add: lib_auth_def example_config_def ConnectionTokenIssuer_issue_def
        empty_store_def Let_def)
  from token_route_responses [of "lib_auth example_config" bare_request empty_store]
    token_route_responses [of "lib_auth example_config"
      "bare_request\<lparr>headers := [''x-api-key'' \<mapsto> lit ''test-secret-key'']\<rparr>" empty_store]
    absent keyed issued
  show ?thesis by (simp add: connectionTokenTTL_def)
qed

text \<open>
  C5. \<^verbatim>\<open>POST /api/auth/logout\<close> answers every request with 200 and
  \<^verbatim>\<open>{ success: true, message: "Logged out successfully." }\<close> and clears the session
  cookie; when the request carries a session cookie the session it names is invalidated,
  otherwise nothing is; a second logout on the resulting state answers 200 again.
  Invalidating a token that names no session leaves the store as it is, and after a
  logout the store has no session under the cookie's token.
\<close>

theorem logout_always_succeeds:
  "(let r = post_logout lib node_env req st;
        cookie = (case cookies req of None \<Rightarrow> None | Some cs \<Rightarrow> cs (getSessionCookieName lib))
    in statusCode (res r) = 200
       \<and> json_body (res r) =
           Some (JObj [(''success'', JBool True),
                       (''message'', JStr (lit ''Logged out successfully.''))])
       \<and> cleared_cookies (res r) =
           [(getSessionCookieName lib,
             \<lparr>httpOnly = True, secure = (node_env = Some (lit ''production'')),
              sameSite = lit ''strict'', path = lit ''/''\<rparr>)]
       \<and> (\<forall>t. cookie = Some t \<and> t \<noteq> [] \<longrightarrow>
              state r = invalidateSession lib t st
              \<and> calls r = [GetSessionCookieName, InvalidateSession t])
       \<and> (\<not> truthy cookie \<longrightarrow> state r = st \<and> calls r = [GetSessionCookieName])
       \<and> statusCode (res (post_logout lib node_env req (state r))) = 200)
   \<and> (sessions s token = None \<longrightarrow> SessionStore_invalidate token s = s)
   \<and> SessionStore_invalidate token (SessionStore_invalidate token s)
       = SessionStore_invalidate token s
   \<and> (\<forall>t. session_cookie cfg req = Some t \<and> t \<noteq> [] \<longrightarrow>
          fst (SessionStore_get t (state (post_logout (lib_auth cfg) node_env req s'))) = None)"
proof -
  have route: "let r = post_logout lib node_env req st;
        cookie = (case cookies req of None \<Rightarrow> None | Some cs \<Rightarrow> cs (getSessionCookieName lib))
    in statusCode (res r) = 200
       \<and> json_body (res r) =
           Some (JObj [(''success'', JBool True),
                       (''message'', JStr (lit ''Logged out successfully.''))])
       \<and> cleared_cookies (res r) =
           [(getSessionCookieName lib,
             \<lparr>httpOnly = True, secure = (node_env = Some (lit ''production'')),
              sameSite = lit ''strict'', path = lit ''/''\<rparr>)]
       \<and> (\<forall>t. cookie = Some t \<and> t \<noteq> [] \<longrightarrow>
              state r = invalidateSession lib t st
              \<and> calls r = [GetSessionCookieName, InvalidateSession t])
       \<and> (\<not> truthy cookie \<longrightarrow> state r = st \<and> calls r = [GetSessionCookieName])
       \<and> statusCode (res (post_logout lib node_env req (state r))) = 200"
    by (simp add: post_logout_def res_defs Let_def split: option.splits prod.splits)
  have noop: "sessions s token = None \<longrightarrow> SessionStore_invalidate token s = s"
    by (simp add: SessionStore_invalidate_def fun_upd_idem)
  have twice: "SessionStore_invalidate token (SessionStore_invalidate token s)
                 = SessionStore_invalidate token s"
    by (simp add: SessionStore_invalidate_def)
  have gone: "\<forall>t. session_cookie cfg req = Some t \<and> t \<noteq> [] \<longrightarrow>
          fst (SessionStore_get t (state (post_logout (lib_auth cfg) node_env req s'))) = None"
    by (simp add: post_logout_def session_cookie_def lib_auth_def SessionStore_invalidate_def
        SessionStore_get_def Let_def split: option.splits)
  from route noop twice gone show ?thesis by blast
qed

theorem logout_always_succeeds_witness:
  "session_cookie example_config (bare_request\<lparr>cookies := Some [lit ''session'' \<mapsto> [0x74]]\<rparr>)
     = Some [0x74]
   \<and> fst (SessionStore_get [0x74]
            (snd (SessionStore_create example_config empty_store))) \<noteq> None
   \<and> fst (SessionStore_get [0x74]
            (state (post_logout (lib_auth example_config) None
                      (bare_request\<lparr>cookies := Some [lit ''session'' \<mapsto> [0x74]]\<rparr>)
                      (snd (SessionStore_create example_config empty_store))))) = None
   \<and> statusCode (res (post_logout (lib_auth example_config) None
                      (bare_request\<lparr>cookies := Some [lit ''session'' \<mapsto> [0x74]]\<rparr>)
                      (snd (SessionStore_create example_config empty_store)))) = 200
   \<and> sessions empty_store [0x74] = None
   \<and> SessionStore_invalidate [0x74] empty_store = empty_store"
proof -
  have cookie: "session_cookie example_config
                  (bare_request\<lparr>cookies := Some [lit ''session'' \<mapsto> [0x74]]\<rparr>) = Some [0x74]"
    by (simp add: session_cookie_def example_config_def)
  have logged_in: "fst (SessionStore_get [0x74]
                     (snd (SessionStore_create example_config empty_store))) \<noteq> None"
    by (simp add: SessionStore_get_def SessionStore_create_def example_config_def
        empty_store_def Let_def)
  have unknown: "sessions empty_store [0x74] = None"
    by (simp add: empty_store_def)
  from logout_always_succeeds [of "lib_auth example_config" None
      "bare_request\<lparr>cookies := Some [lit ''session'' \<mapsto> [0x74]]\<rparr>"
      "snd (SessionStore_create example_config empty_store)"
      empty_store "[0x74]" example_config
      "snd (SessionStore_create example_config empty_store)"]
    cookie logged_in unknown
  show ?thesis by (simp add: Let_def)
qed

section \<open>The authentication gate\<close>

lemma presented_eq:
  "presented cfg req =
     (case headers req ''x-api-key'' of
        Some key \<Rightarrow> Some (ApiKey key)
      | None \<Rightarrow>
          (case session_cookie cfg req of
             Some token \<Rightarrow> Some (SessionToken token)
           | None \<Rightarrow> map_option SessionToken (headers req (sessionTokenHeader cfg))))"
  by (simp add: presented_def extractors_def session_cookie_def split: option.splits)

section \<open>Connection tokens\<close>

lemma get_store:
  "SessionStore_get token st = (found, st') \<Longrightarrow>
     draws st' = draws st \<and> clock st' = clock st \<and> connTokens st' = connTokens st
     \<and> dom (sessions st') \<subseteq> dom (sessions st)"
  by (auto simp: SessionStore_get_def split: option.splits if_splits)

lemma isRequestAuthenticated_store:
  "AuthGate_isRequestAuthenticated cfg req st = (b, st') \<Longrightarrow>
     draws st' = draws st \<and> clock st' = clock st \<and> connTokens st' = connTokens st
     \<and> dom (sessions st') \<subseteq> dom (sessions st)"
  unfolding AuthGate_isRequestAuthenticated_def AuthGate_authenticate_def
  by (auto split: option.splits credential.splits prod.splits if_splits dest!: get_store)

lemma isRequestAuthenticated_iff:
  "fst (AuthGate_isRequestAuthenticated cfg req st) \<longleftrightarrow>
     (\<exists>c. presented cfg req = Some c \<and> credential_valid cfg st c)"
  by (auto simp: AuthGate_isRequestAuthenticated_def AuthGate_authenticate_def
      credential_valid_def split: option.splits credential.splits prod.splits)

lemma drawn_fresh:
  assumes "inj (entropy cfg)" and "drawn cfg st"
  shows "entropy cfg (draws st) \<notin> dom (sessions st) \<union> dom (connTokens st)"
proof
  assume "entropy cfg (draws st) \<in> dom (sessions st) \<union> dom (connTokens st)"
  with assms(2) obtain i where "i < draws st" and "entropy cfg (draws st) = entropy cfg i"
    unfolding drawn_def by blast
  with assms(1) show False by (auto dest: injD)
qed

lemma drawn_create: "drawn cfg st \<Longrightarrow> drawn cfg (snd (SessionStore_create cfg st))"
  unfolding drawn_def SessionStore_create_def Let_def
  by (auto simp: less_Suc_eq split: if_splits)

lemma drawn_issue: "drawn cfg st \<Longrightarrow> drawn cfg (snd (ConnectionTokenIssuer_issue cfg st))"
  unfolding drawn_def ConnectionTokenIssuer_issue_def Let_def
  by (auto simp: less_Suc_eq split: if_splits)

lemma drawn_invalidate: "drawn cfg st \<Longrightarrow> drawn cfg (SessionStore_invalidate token st)"
  unfolding drawn_def SessionStore_invalidate_def
  by (auto split: if_splits)

lemma drawn_subset:
  assumes "drawn cfg st" and "draws st' = draws st" and "connTokens st' = connTokens st"
    and "dom (sessions st') \<subseteq> dom (sessions st)"
  shows "drawn cfg st'"
  using assms unfolding drawn_def by (simp add: subset_iff) blast

lemma drawn_empty: "drawn cfg empty_store"
  by (simp add: drawn_def empty_store_def)

lemma get_token_lib_auth:
  assumes "AuthGate_isRequestAuthenticated cfg req st = (b, st')"
  shows "get_token (lib_auth cfg) req st =
     (if \<not> b then
        \<lparr>res = res_json (JObj [(''success'', JBool False),
                                (''error'', JStr (lit ''Authentication required.''))])
                 (res_status 401 res0),
         state = st', calls = [IsRequestAuthenticated]\<rparr>
      else
        \<lparr>res = res_json (JObj [(''success'', JBool True),
                                (''token'', JStr (entropy cfg (draws st))),
                                (''expiresIn'', JNum 300)]) res0,
         state = st'\<lparr>connTokens := (connTokens st)(entropy cfg (draws st) \<mapsto>
                         \<lparr>ct_expiresAt = clock st + connectionTokenTTL\<rparr>),
                     draws := Suc (draws st)\<rparr>,
         calls = [IsRequestAuthenticated, CreateWsConnectionToken]\<rparr>)"
  using assms isRequestAuthenticated_store [OF assms]
  by (simp add: get_token_def lib_auth_def ConnectionTokenIssuer_issue_def Let_def)

text \<open>
  C4, the claim as written, fails on the route: a request that presents the API key
  and no session token, on a store with no session at all, is answered 200 with a
  connection token.
\<close>

theorem token_issued_without_session:
  "session_cookie example_config keyed_request = None
   \<and> headers keyed_request (sessionTokenHeader example_config) = None
   \<and> dom (sessions empty_store) = {}
   \<and> statusCode (res (get_token (lib_auth example_config) keyed_request empty_store)) = 200
   \<and> body_at [''token''] (res (get_token (lib_auth example_config) keyed_request empty_store))
       = Some (JStr [0x74])"
proof -
  have "AuthGate_isRequestAuthenticated example_config keyed_request empty_store
          = (True, empty_store)"
    by (simp add: AuthGate_isRequestAuthenticated_def AuthGate_authenticate_def presented_eq
        keyed_request_def bare_request_def KeyValidator_validate_iff example_config_def)
  from get_token_lib_auth [OF this] show ?thesis
    by (simp add: res_defs body_at_def field_def session_cookie_def keyed_request_def
        bare_request_def empty_store_def example_config_def)
qed

text \<open>
  C4, amended. Connection-token issuance requires an authenticated request, by any
  credential the gate accepts: \<^verbatim>\<open>GET /api/auth/token\<close> answers 401 with
  \<^verbatim>\<open>{ success: false, error: "Authentication required." }\<close> and issues nothing exactly
  when \<^verbatim>\<open>isRequestAuthenticated\<close> is false, that is when no credential is presented or
  the one presented is invalid. Otherwise it returns a token that is distinct from every
  session token and from every connection token issued before, also by the next call,
  and records it among the connection tokens with expiry now + 300 seconds. The
  randomness source is taken never to repeat a value, and every token of the store to
  have been drawn from it.
\<close>

theorem connection_token_issuance:
  assumes "inj (entropy cfg)" and "drawn cfg st"
  shows "(statusCode (res (get_token (lib_auth cfg) req st)) = 401
            \<longleftrightarrow> \<not> fst (isRequestAuthenticated (lib_auth cfg) req st))
    \<and> (fst (isRequestAuthenticated (lib_auth cfg) req st)
            \<longleftrightarrow> (\<exists>c. presented cfg req = Some c \<and> credential_valid cfg st c))
    \<and> (\<not> fst (isRequestAuthenticated (lib_auth cfg) req st) \<longrightarrow>
          json_body (res (get_token (lib_auth cfg) req st)) =
            Some (JObj [(''success'', JBool False),
                        (''error'', JStr (lit ''Authentication required.''))])
          \<and> connTokens (state (get_token (lib_auth cfg) req st)) = connTokens st)
    \<and> (fst (isRequestAuthenticated (lib_auth cfg) req st) \<longrightarrow>
          (\<exists>t. body_at [''token''] (res (get_token (lib_auth cfg) req st)) = Some (JStr t)
             \<and> t \<notin> dom (sessions st)
             \<and> t \<notin> dom (sessions (state (get_token (lib_auth cfg) req st)))
             \<and> t \<notin> dom (connTokens st)
             \<and> connTokens (state (get_token (lib_auth cfg) req st)) =
                 (connTokens st)(t \<mapsto> \<lparr>ct_expiresAt = clock st + connectionTokenTTL\<rparr>)
             \<and> drawn cfg (state (get_token (lib_auth cfg) req st))
             \<and> (\<forall>req2 t2.
                   body_at [''token'']
                     (res (get_token (lib_auth cfg) req2 (state (get_token (lib_auth cfg) req st))))
                     = Some (JStr t2) \<longrightarrow> t2 \<noteq> t)))"
proof -
  let ?r = "get_token (lib_auth cfg) req st"
  let ?t = "entropy cfg (draws st)"
  obtain b st' where gate: "AuthGate_isRequestAuthenticated cfg req st = (b, st')"
    by (cases "AuthGate_isRequestAuthenticated cfg req st")
  note kept = isRequestAuthenticated_store [OF gate]
  have fst_b: "fst (isRequestAuthenticated (lib_auth cfg) req st) = b"
    using gate by (simp add: lib_auth_def)
  note route = get_token_lib_auth [OF gate]
  have c1: "statusCode (res ?r) = 401 \<longleftrightarrow> \<not> b"
    by (simp add: route res_defs)
  have c2: "b \<longleftrightarrow> (\<exists>c. presented cfg req = Some c \<and> credential_valid cfg st c)"
    using isRequestAuthenticated_iff [of cfg req st] gate by simp
  have c3: "json_body (res ?r) =
              Some (JObj [(''success'', JBool False),
                          (''error'', JStr (lit ''Authentication required.''))])
            \<and> connTokens (state ?r) = connTokens st" if "\<not> b"
    using that kept by (simp add: route res_defs)
  have c4: "\<exists>t. body_at [''token''] (res ?r) = Some (JStr t)
             \<and> t \<notin> dom (sessions st)
             \<and> t \<notin> dom (sessions (state ?r))
             \<and> t \<notin> dom (connTokens st)
             \<and> connTokens (state ?r) =
                 (connTokens st)(t \<mapsto> \<lparr>ct_expiresAt = clock st + connectionTokenTTL\<rparr>)
             \<and> drawn cfg (state ?r)
             \<and> (\<forall>req2 t2.
                   body_at [''token''] (res (get_token (lib_auth cfg) req2 (state ?r)))
                     = Some (JStr t2) \<longrightarrow> t2 \<noteq> t)" if b
  proof -
    have fresh: "?t \<notin> dom (sessions st) \<union> dom (connTokens st)"
      using assms by (rule drawn_fresh)
    have body: "body_at [''token''] (res ?r) = Some (JStr ?t)"
      using that by (simp add: route res_defs body_at_def field_def)
    have st_r: "state ?r = st'\<lparr>connTokens := (connTokens st)(?t \<mapsto>
                    \<lparr>ct_expiresAt = clock st + connectionTokenTTL\<rparr>), draws := Suc (draws st)\<rparr>"
      using that by (simp add: route)
    have no_session: "?t \<notin> dom (sessions st)" and no_token: "?t \<notin> dom (connTokens st)"
      using fresh by simp_all
    have no_session': "?t \<notin> dom (sessions (state ?r))"
      using no_session kept by (auto simp: st_r)
    have recorded: "connTokens (state ?r) =
        (connTokens st)(?t \<mapsto> \<lparr>ct_expiresAt = clock st + connectionTokenTTL\<rparr>)"
      by (simp add: st_r)
    have "drawn cfg st'"
      using assms(2) kept by (auto intro: drawn_subset)
    then have "drawn cfg (snd (ConnectionTokenIssuer_issue cfg st'))"
      by (rule drawn_issue)
    then have inv: "drawn cfg (state ?r)"
      using kept by (simp add: st_r ConnectionTokenIssuer_issue_def Let_def)
    have later: "\<forall>req2 t2.
                   body_at [''token''] (res (get_token (lib_auth cfg) req2 (state ?r)))
                     = Some (JStr t2) \<longrightarrow> t2 \<noteq> ?t"
    proof (intro allI impI)
      fix req2 t2
      assume second: "body_at [''token''] (res (get_token (lib_auth cfg) req2 (state ?r)))
                        = Some (JStr t2)"
      obtain b2 st2 where gate2: "AuthGate_isRequestAuthenticated cfg req2 (state ?r) = (b2, st2)"
        by (cases "AuthGate_isRequestAuthenticated cfg req2 (state ?r)")
      from second have "t2 = entropy cfg (draws (state ?r))"
        by (simp add: get_token_lib_auth [OF gate2] res_defs body_at_def field_def
            split: if_splits)
      then have "t2 = entropy cfg (Suc (draws st))"
        by (simp add: st_r)
      with assms(1) show "t2 \<noteq> ?t" by (auto dest: injD)
    qed
    from body no_session no_session' no_token recorded inv later
    show ?thesis by (intro exI [of _ ?t] conjI)
  qed
  from c1 c2 c3 c4 show ?thesis
    unfolding fst_b by (intro conjI impI) simp_all
qed

theorem connection_token_issuance_witness:
  "inj (entropy example_config) \<and> drawn example_config logged_in_store
   \<and> fst (isRequestAuthenticated (lib_auth example_config) cookie_request logged_in_store)
   \<and> statusCode (res (get_token (lib_auth example_config) cookie_request logged_in_store)) \<noteq> 401
   \<and> (\<exists>t. body_at [''token'']
               (res (get_token (lib_auth example_config) cookie_request logged_in_store))
             = Some (JStr t)
           \<and> t \<notin> dom (sessions logged_in_store))
   \<and> \<not> fst (isRequestAuthenticated (lib_auth example_config) bare_request logged_in_store)
   \<and> statusCode (res (get_token (lib_auth example_config) bare_request logged_in_store)) = 401"
proof -
  have never_repeats: "inj (entropy example_config)"
  proof (rule injI)
    fix n m
    assume "entropy example_config n = entropy example_config m"
    then have "length (replicate (Suc n) (0x74::nat)) = length (replicate (Suc m) (0x74::nat))"
      by (simp add: example_config_def)
    then show "n = m" by simp
  qed
  have all_drawn: "drawn example_config logged_in_store"
    unfolding logged_in_store_def by (rule drawn_create) (rule drawn_empty)
  have with_cookie:
    "fst (isRequestAuthenticated (lib_auth example_config) cookie_request logged_in_store)"
    by (simp add: lib_auth_def AuthGate_isRequestAuthenticated_def AuthGate_authenticate_def
        presented_eq session_cookie_def cookie_request_def bare_request_def
        SessionStore_get_def logged_in_store_def SessionStore_create_def empty_store_def
        example_config_def Let_def)
  have without:
    "\<not> fst (isRequestAuthenticated (lib_auth example_config) bare_request logged_in_store)"
    by (simp add: lib_auth_def AuthGate_isRequestAuthenticated_def AuthGate_authenticate_def
        presented_eq session_cookie_def bare_request_def)
  from connection_token_issuance [OF never_repeats all_drawn, of cookie_request]
    connection_token_issuance [OF never_repeats all_drawn, of bare_request]
    never_repeats all_drawn with_cookie without
  show ?thesis by blast
qed

section \<open>The validate-feature route\<close>



















end
